theory Spec2Isabelle
  imports Main "HOL-Library.AList"
begin

section \<open>Compute tasks of the amphora controller worker\<close>

text \<open>
  A shallow embedding of \<^verbatim>\<open>octavia/controller/worker/v2/tasks/compute_tasks.py\<close>.
  Every task method becomes a function from the world before the call to the outcome of
  the call and the world after it. The outcome is a sum: \<open>Inl e\<close> when the method
  raises the exception \<open>e\<close>, \<open>Inr v\<close> when it returns \<open>v\<close>.

  The collaborators the tasks reach through \<^verbatim>\<open>self.compute\<close>, \<^verbatim>\<open>self.rate_limit\<close>,
  \<^verbatim>\<open>self.loadbalancer_repo\<close> and the templater classes are parameters: records of
  operations over a state of their own, each of which may return or raise. The world
  records every call made to the driver and to the rate limiter, in order.
\<close>

subsection \<open>Values, exceptions and the world\<close>

text \<open>
  A Python dict keeps its keys in insertion order and holds each key once: an
  association list, read with \<open>map_of\<close> and assigned with \<open>AList.update\<close>
  (which replaces the value of a key in place and appends a new key at the end).
\<close>

type_synonym dict = "(string \<times> string) list"

type_synonym addr = nat

text \<open>
  Exceptions that reach this module. The first two are raised by the module itself;
  \<open>KeyError\<close> and \<open>AttributeError\<close> are the interpreter's; \<open>Raised\<close> stands for any
  other subclass of \<^verbatim>\<open>Exception\<close> that a collaborator raises. Every handler of the
  module is \<^verbatim>\<open>except Exception\<close>, which catches each of them.
\<close>

datatype exn =
    ComputeBuildException "string option"
  | ComputeWaitTimeoutException string
  | KeyError string
  | AttributeError string
  | Raised string

text \<open>
  What taskflow hands to \<^verbatim>\<open>revert\<close> as \<^verbatim>\<open>result\<close>: the value \<^verbatim>\<open>execute\<close> returned (an
  identifier, a string) or a \<^verbatim>\<open>failure.Failure\<close> wrapping the exception it raised.
\<close>

datatype pyobj = Str string | Failure exn

record port =
  port_id :: string

record amphora =
  compute_handle :: string
  status :: string
  lb_network_ip :: "string option"



record build_args =
  kw_name :: string
  kw_amphora_flavor :: string
  kw_image_id :: string
  kw_image_tag :: string
  kw_image_owner :: string
  kw_key_name :: string
  kw_sec_groups :: "string list"
  kw_network_ids :: "string list"
  kw_port_ids :: "string list"
  kw_config_drive_files :: "dict option"
  kw_user_data :: "string option"
  kw_server_group_id :: "string option"
  kw_availability_zone :: "string option"

datatype call =
    Build build_args
  | Delete string
  | GetAmphora string "string option"
  | CreateServerGroup string string
  | DeleteServerGroup pyobj
  | AddToBuildRequestQueue string int
  | RemoveFromBuildReqQueue string

datatype level = LDebug | LWarning | LError | LException

datatype log_entry = Log level string "string list"

text \<open>
  The world: the state of the driver (\<open>compute\<close>) and of the rate limiter
  (\<open>rate_limit\<close>), the store of the dicts and lists that callers pass by reference
  (\<open>nxt\<close> is the first address not yet allocated), and three histories: the calls made
  to driver and rate limiter, the log records, and the arguments of \<^verbatim>\<open>time.sleep\<close>.
\<close>

record ('d, 'g) world =
  compute :: 'd
  rate_limit :: 'g
  dicts :: "addr \<Rightarrow> dict"
  port_lists :: "addr \<Rightarrow> port list"
  nxt :: addr
  calls :: "call list"
  logged :: "log_entry list"
  slept :: "int list"

type_synonym ('d, 'g, 'a) action = "('d, 'g) world \<Rightarrow> (exn + 'a) \<times> ('d, 'g) world"

subsection \<open>Collaborators\<close>

text \<open>
  The compute driver loaded by \<^verbatim>\<open>BaseComputeTask.__init__\<close>. Of the server group that
  \<^verbatim>\<open>create_server_group\<close> returns the tasks read the id only, which stands for it here.
\<close>

record 'd compute_driver =
  build :: "build_args \<Rightarrow> 'd \<Rightarrow> (exn + string) \<times> 'd"
  delete :: "string \<Rightarrow> 'd \<Rightarrow> (exn + unit) \<times> 'd"
  get_amphora :: "string \<Rightarrow> string option \<Rightarrow> 'd \<Rightarrow> (exn + amphora \<times> string option) \<times> 'd"
  create_server_group :: "string \<Rightarrow> string \<Rightarrow> 'd \<Rightarrow> (exn + string) \<times> 'd"
  delete_server_group :: "pyobj \<Rightarrow> 'd \<Rightarrow> (exn + unit) \<times> 'd"

text \<open>\<^verbatim>\<open>amphora_rate_limit.AmphoraBuildRateLimit\<close>, as far as the tasks use it.\<close>

record 'g build_rate_limiter =
  add_to_build_request_queue :: "string \<Rightarrow> int \<Rightarrow> 'g \<Rightarrow> (exn + unit) \<times> 'g"
  remove_from_build_req_queue :: "string \<Rightarrow> 'g \<Rightarrow> (exn + unit) \<times> 'g"


text \<open>Section \<^verbatim>\<open>controller_worker\<close>, \<^verbatim>\<open>haproxy_amphora\<close>, \<^verbatim>\<open>amphora_agent\<close> and \<^verbatim>\<open>nova\<close> of CONF.\<close>

record conf =
  amp_boot_network_list :: "string list"
  user_data_config_drive :: bool
  amp_ssh_key_name :: string
  loadbalancer_topology :: string
  amp_flavor_id :: string
  amp_image_id :: string
  amp_image_tag :: string
  amp_image_owner_id :: string
  amp_secgroup_list :: "string list"
  amp_active_retries :: int
  amp_active_wait_sec :: int
  build_rate_limit :: int
  logging_template_override :: "string option"
  anti_affinity_policy :: string

subsection \<open>Effects\<close>

definition log :: "level \<Rightarrow> string \<Rightarrow> string list \<Rightarrow> ('d, 'g) world \<Rightarrow> ('d, 'g) world" where
  "log lv msg args w = w\<lparr>logged := logged w @ [Log lv msg args]\<rparr>"

definition sleep :: "int \<Rightarrow> ('d, 'g) world \<Rightarrow> ('d, 'g) world" where
  "sleep sec w = w\<lparr>slept := slept w @ [sec]\<rparr>"

text \<open>A call of a driver operation: the driver's state moves on, the call is recorded.\<close>

definition on_compute ::
  "call \<Rightarrow> ('d \<Rightarrow> (exn + 'a) \<times> 'd) \<Rightarrow> ('d, 'g, 'a) action" where
  "on_compute c f w =
     (case f (compute w) of (r, d') \<Rightarrow> (r, w\<lparr>compute := d', calls := calls w @ [c]\<rparr>))"

definition on_rate_limit ::
  "call \<Rightarrow> ('g \<Rightarrow> (exn + 'a) \<times> 'g) \<Rightarrow> ('d, 'g, 'a) action" where
  "on_rate_limit c f w =
     (case f (rate_limit w) of (r, g') \<Rightarrow> (r, w\<lparr>rate_limit := g', calls := calls w @ [c]\<rparr>))"

text \<open>Sequencing: what follows a statement that raised is skipped.\<close>

definition and_then ::
  "('d, 'g, 'a) action \<Rightarrow> ('a \<Rightarrow> ('d, 'g, 'b) action) \<Rightarrow> ('d, 'g, 'b) action" where
  "and_then m f w = (case m w of (Inl e, w') \<Rightarrow> (Inl e, w') | (Inr a, w') \<Rightarrow> f a w')"

text \<open>\<^verbatim>\<open>try: body  except Exception: handler\<close>, the handler given the exception.\<close>

definition try_except ::
  "('d, 'g, 'a) action \<Rightarrow> (exn \<Rightarrow> ('d, 'g, 'a) action) \<Rightarrow> ('d, 'g, 'a) action" where
  "try_except body handler w =
     (case body w of (Inl e, w') \<Rightarrow> handler e w' | (Inr a, w') \<Rightarrow> (Inr a, w'))"

definition raise :: "exn \<Rightarrow> ('d, 'g, 'a) action" where
  "raise e w = (Inl e, w)"

definition return :: "'a \<Rightarrow> ('d, 'g, 'a) action" where
  "return a w = (Inr a, w)"


text \<open>A collaborator that has no state the tasks can see: only its answer matters.\<close>

definition lift :: "exn + 'a \<Rightarrow> ('d, 'g, 'a) action" where
  "lift r w = (r, w)"

text \<open>The store: \<^verbatim>\<open>{}\<close> allocates a dict, \<^verbatim>\<open>d[k] = v\<close> writes the dict at its address.\<close>

definition alloc_dict :: "dict \<Rightarrow> ('d, 'g) world \<Rightarrow> addr \<times> ('d, 'g) world" where
  "alloc_dict d w = (nxt w, w\<lparr>dicts := (dicts w)(nxt w := d), nxt := Suc (nxt w)\<rparr>)"

definition setitem :: "addr \<Rightarrow> string \<Rightarrow> string \<Rightarrow> ('d, 'g) world \<Rightarrow> ('d, 'g) world" where
  "setitem a k v w = w\<lparr>dicts := (dicts w)(a := AList.update k v (dicts w a))\<rparr>"

subsection \<open>Constants\<close>

text \<open>
  Modelled from the spec: \<^verbatim>\<open>octavia.common.constants\<close> is not among the sources. The
  two status names are the spec's (section 3); the others are the keys under which the
  module looks its dict arguments up. The results below use of these values only that
  \<open>ACTIVE\<close> and \<open>ERROR\<close> differ.
\<close>

definition ACTIVE :: string where "ACTIVE = ''ACTIVE''"
definition ERROR :: string where "ERROR = ''ERROR''"
definition LOADBALANCER_TOPOLOGY :: string where "LOADBALANCER_TOPOLOGY = ''loadbalancer_topology''"
definition COMPUTE_FLAVOR :: string where "COMPUTE_FLAVOR = ''compute_flavor''"
definition COMPUTE_ZONE :: string where "COMPUTE_ZONE = ''compute_zone''"
definition MANAGEMENT_NETWORK :: string where "MANAGEMENT_NETWORK = ''management_network''"
definition ID :: string where "ID = ''id''"
definition COMPUTE_ID :: string where "COMPUTE_ID = ''compute_id''"

text \<open>
  Modelled from the spec: \<^verbatim>\<open>Amphora.to_dict\<close> of \<^verbatim>\<open>octavia.common.data_models\<close> is not
  among the sources; it gives the "normalized instance description" of section 4.5, the
  fields of the object by name.
\<close>

definition to_dict :: "amphora \<Rightarrow> (string \<times> string option) list" where
  "to_dict amp =
     [(''compute_id'', Some (compute_handle amp)),
      (''status'', Some (status amp)),
      (''lb_network_ip'', lb_network_ip amp)]"

text \<open>
  The templaters of \<^verbatim>\<open>agent_jinja_cfg\<close>, \<^verbatim>\<open>logging_jinja_cfg\<close> and \<^verbatim>\<open>user_data_jinja_cfg\<close>:
  each renders a text from its arguments, or raises.
\<close>

record templaters =
  build_agent_config :: "string \<Rightarrow> string \<Rightarrow> exn + string"
  build_logging_config :: "string option \<Rightarrow> exn + string"
  build_user_data_config :: "dict \<Rightarrow> exn + string"

subsection \<open>ComputeCreate.execute\<close>

text \<open>
  The arguments that are dicts or lists come by reference (an address of the store, or
  \<^verbatim>\<open>None\<close>); identifiers and the priority are immutable values. \<open>ComputeCreate_try\<close> is
  the body of the \<^verbatim>\<open>try\<close> statement, given the locals that the lines before it set.
\<close>

definition ComputeCreate_try ::
  "conf \<Rightarrow> templaters \<Rightarrow> 'd compute_driver \<Rightarrow> 'g build_rate_limiter \<Rightarrow>
   string \<Rightarrow> addr \<Rightarrow> int \<Rightarrow> string option \<Rightarrow> port list \<Rightarrow>
   string \<Rightarrow> string \<Rightarrow> string list \<Rightarrow> string option \<Rightarrow> ('d, 'g, string) action" where
  "ComputeCreate_try cfg tmpl drv rl amphora_id config_drive_files build_type_priority
       server_group_id ports topology amp_compute_flavor network_ids amp_availability_zone =
     and_then
       (if build_rate_limit cfg \<noteq> - 1
        then on_rate_limit (AddToBuildRequestQueue amphora_id build_type_priority)
               (add_to_build_request_queue rl amphora_id build_type_priority)
        else return ())
     (\<lambda>_. and_then (lift (build_agent_config tmpl amphora_id topology))
     (\<lambda>agent_config. and_then
       (return () \<circ> setitem config_drive_files ''/etc/octavia/amphora-agent.conf'' agent_config)
     (\<lambda>_. and_then (lift (build_logging_config tmpl (logging_template_override cfg)))
     (\<lambda>logging_config. and_then
       (return () \<circ> setitem config_drive_files ''/etc/rsyslog.d/10-rsyslog.conf'' logging_config)
     (\<lambda>_. and_then
       (\<lambda>w. if user_data_config_drive cfg
            then (case build_user_data_config tmpl (dicts w config_drive_files) of
                    Inl e \<Rightarrow> raise e w
                  | Inr user_data \<Rightarrow> return (Some user_data, None) w)
            else return (None, Some (dicts w config_drive_files)) w)
     (\<lambda>(user_data, config_drive_files). and_then
       (let args = \<lparr>kw_name = ''amphora-'' @ amphora_id,
                    kw_amphora_flavor = amp_compute_flavor,
                    kw_image_id = amp_image_id cfg,
                    kw_image_tag = amp_image_tag cfg,
                    kw_image_owner = amp_image_owner_id cfg,
                    kw_key_name = amp_ssh_key_name cfg,
                    kw_sec_groups = amp_secgroup_list cfg,
                    kw_network_ids = network_ids,
                    kw_port_ids = map port_id ports,
                    kw_config_drive_files = config_drive_files,
                    kw_user_data = user_data,
                    kw_server_group_id = server_group_id,
                    kw_availability_zone = amp_availability_zone\<rparr>
        in on_compute (Build args) (build drv args))
     (\<lambda>compute_id.
        return compute_id \<circ>
        log LDebug ''Server created with id: %s for amphora id: %s'' [compute_id, amphora_id])))))))"

definition ComputeCreate_execute ::
  "conf \<Rightarrow> templaters \<Rightarrow> 'd compute_driver \<Rightarrow> 'g build_rate_limiter \<Rightarrow>
   string \<Rightarrow> addr option \<Rightarrow> int \<Rightarrow> string option \<Rightarrow> addr option \<Rightarrow>
   addr option \<Rightarrow> addr option \<Rightarrow> ('d, 'g, string) action" where
  "ComputeCreate_execute cfg tmpl drv rl amphora_id config_drive_files build_type_priority
       server_group_id ports flavor availability_zone w =
     (let ports = (case ports of Some p \<Rightarrow> if port_lists w p \<noteq> [] then port_lists w p else []
                   | None \<Rightarrow> []);
          network_ids = amp_boot_network_list cfg;
          (config_drive_files, w) =
             (case config_drive_files of
                Some a \<Rightarrow> if dicts w a \<noteq> [] then (a, w) else alloc_dict [] w
              | None \<Rightarrow> alloc_dict [] w);
          w = log LDebug ''Compute create execute for amphora with id %s'' [amphora_id] w;
          (topology, amp_compute_flavor) =
             (case flavor of
                Some f \<Rightarrow>
                  if dicts w f \<noteq> []
                  then (case_option (loadbalancer_topology cfg) (\<lambda>v. v)
                          (map_of (dicts w f) LOADBALANCER_TOPOLOGY),
                        case_option (amp_flavor_id cfg) (\<lambda>v. v)
                          (map_of (dicts w f) COMPUTE_FLAVOR))
                  else (loadbalancer_topology cfg, amp_flavor_id cfg)
              | None \<Rightarrow> (loadbalancer_topology cfg, amp_flavor_id cfg));
          (amp_availability_zone, network_ids) =
             (case availability_zone of
                Some z \<Rightarrow>
                  if dicts w z \<noteq> []
                  then (map_of (dicts w z) COMPUTE_ZONE,
                        (case map_of (dicts w z) MANAGEMENT_NETWORK of
                           Some amp_network \<Rightarrow>
                             if amp_network \<noteq> [] then [amp_network] else network_ids
                         | None \<Rightarrow> network_ids))
                  else (None, network_ids)
              | None \<Rightarrow> (None, network_ids))
      in try_except
           (ComputeCreate_try cfg tmpl drv rl amphora_id config_drive_files build_type_priority
              server_group_id ports topology amp_compute_flavor network_ids amp_availability_zone)
           (\<lambda>e. raise e \<circ> log LException ''Compute create for amphora id: %s failed'' [amphora_id])
           w)"

subsection \<open>ComputeCreate.revert\<close>

definition ComputeCreate_revert ::
  "'d compute_driver \<Rightarrow> pyobj \<Rightarrow> string \<Rightarrow> ('d, 'g, unit) action" where
  "ComputeCreate_revert drv result amphora_id w =
     (case result of
        Failure f \<Rightarrow> return () w
      | Str compute_id \<Rightarrow>
          try_except
            (on_compute (Delete compute_id) (delete drv compute_id))
            (\<lambda>e. return () \<circ> log LException ''Reverting compute create failed'' [])
            (log LWarning ''Reverting compute create for amphora with id %(amp)s and compute id: %(comp)s''
               [amphora_id, compute_id] w))"

subsection \<open>ComputeDelete\<close>

text \<open>
  \<^verbatim>\<open>amphora\<close> is a dict here: \<^verbatim>\<open>amphora.get(k)\<close> gives \<^verbatim>\<open>None\<close> for a missing key,
  \<^verbatim>\<open>amphora[k]\<close> raises \<^verbatim>\<open>KeyError\<close>, inside the \<^verbatim>\<open>try\<close>.
\<close>

definition subscript :: "dict \<Rightarrow> string \<Rightarrow> ('d, 'g, string) action" where
  "subscript d k = (case map_of d k of None \<Rightarrow> raise (KeyError k) | Some v \<Rightarrow> return v)"

definition ComputeDelete_execute ::
  "'d compute_driver \<Rightarrow> dict \<Rightarrow> ('d, 'g, unit) action" where
  "ComputeDelete_execute drv amphora w =
     try_except
       (and_then (subscript amphora COMPUTE_ID)
          (\<lambda>compute_id. on_compute (Delete compute_id) (delete drv compute_id)))
       (\<lambda>e. raise e \<circ> log LException ''Compute delete for amphora id: %s failed'' [])
       (log LDebug ''Compute Delete execute for amphora with id %s'' [] w)"

subsection \<open>DeleteAmphoraeOnLoadBalancer\<close>



subsection \<open>ComputeActiveWait\<close>

text \<open>
  The \<^verbatim>\<open>for\<close> loop over \<^verbatim>\<open>range(CONF.controller_worker.amp_active_retries)\<close>, by the
  number of iterations left, and the \<^verbatim>\<open>raise\<close> that follows the loop.
\<close>

fun active_wait ::
  "conf \<Rightarrow> 'd compute_driver \<Rightarrow> 'g build_rate_limiter \<Rightarrow> string \<Rightarrow> string \<Rightarrow>
   string option \<Rightarrow> nat \<Rightarrow> ('d, 'g, (string \<times> string option) list) action" where
  "active_wait cfg drv rl compute_id amphora_id amp_network 0 w =
     raise (ComputeWaitTimeoutException compute_id) w"
| "active_wait cfg drv rl compute_id amphora_id amp_network (Suc n) w =
     (case on_compute (GetAmphora compute_id amp_network)
             (get_amphora drv compute_id amp_network) w of
        (Inl e, w') \<Rightarrow> (Inl e, w')
      | (Inr (amp, fault), w') \<Rightarrow>
          if status amp = ACTIVE then
            and_then
              (if build_rate_limit cfg \<noteq> - 1
               then on_rate_limit (RemoveFromBuildReqQueue amphora_id)
                      (remove_from_build_req_queue rl amphora_id)
               else return ())
              (\<lambda>_. return (to_dict amp)) w'
          else if status amp = ERROR then raise (ComputeBuildException fault) w'
          else active_wait cfg drv rl compute_id amphora_id amp_network n
                 (sleep (amp_active_wait_sec cfg) w'))"

definition ComputeActiveWait_execute ::
  "conf \<Rightarrow> 'd compute_driver \<Rightarrow> 'g build_rate_limiter \<Rightarrow> string \<Rightarrow> string \<Rightarrow>
   addr option \<Rightarrow> ('d, 'g, (string \<times> string option) list) action" where
  "ComputeActiveWait_execute cfg drv rl compute_id amphora_id availability_zone w =
     (let amp_network =
            (case availability_zone of
               Some z \<Rightarrow> if dicts w z \<noteq> [] then map_of (dicts w z) MANAGEMENT_NETWORK else None
             | None \<Rightarrow> None)
      in active_wait cfg drv rl compute_id amphora_id amp_network
           (nat (amp_active_retries cfg)) w)"

subsection \<open>NovaServerGroupCreate and NovaServerGroupDelete\<close>

definition NovaServerGroupCreate_execute ::
  "conf \<Rightarrow> 'd compute_driver \<Rightarrow> string \<Rightarrow> ('d, 'g, string) action" where
  "NovaServerGroupCreate_execute cfg drv loadbalancer_id =
     (let name = ''octavia-lb-'' @ loadbalancer_id in
      and_then
        (on_compute (CreateServerGroup name (anti_affinity_policy cfg))
           (create_server_group drv name (anti_affinity_policy cfg)))
        (\<lambda>server_group.
           return server_group \<circ>
           log LDebug ''Server Group created with id: %s for load balancer id: %s''
             [server_group, loadbalancer_id]))"

definition NovaServerGroupCreate_revert ::
  "'d compute_driver \<Rightarrow> pyobj \<Rightarrow> ('d, 'g, unit) action" where
  "NovaServerGroupCreate_revert drv result w =
     (let server_group_id = result in
      try_except
        (on_compute (DeleteServerGroup server_group_id) (delete_server_group drv server_group_id))
        (\<lambda>e. return () \<circ>
           log LError
             ''Failed to delete server group.  Resources may still be in use for server group: %(sg)s due to error: %(except)s'' [])
        (log LWarning ''Reverting server group create with id:%s'' [] w))"

definition NovaServerGroupDelete_execute ::
  "'d compute_driver \<Rightarrow> string option \<Rightarrow> ('d, 'g, unit) action" where
  "NovaServerGroupDelete_execute drv server_group_id =
     (case server_group_id of
        Some sg \<Rightarrow> on_compute (DeleteServerGroup (Str sg)) (delete_server_group drv (Str sg))
      | None \<Rightarrow> return ())"

subsection \<open>What the driver reports\<close>

text \<open>
  The answers the driver gives to \<open>n\<close> successive status queries for one instance,
  and to the deletes of a list of handles in turn, from a given state of the driver.
\<close>

fun reported ::
  "'d compute_driver \<Rightarrow> string \<Rightarrow> string option \<Rightarrow> nat \<Rightarrow> 'd \<Rightarrow>
   (exn + amphora \<times> string option) list" where
  "reported drv compute_id amp_network 0 d = []"
| "reported drv compute_id amp_network (Suc n) d =
     (case get_amphora drv compute_id amp_network d of
        (r, d') \<Rightarrow> r # reported drv compute_id amp_network n d')"


text \<open>A report that leaves the poller waiting: a status that is neither of the two it tests.\<close>

definition building :: "exn + amphora \<times> string option \<Rightarrow> bool" where
  "building r = (case r of Inl e \<Rightarrow> False
                 | Inr (amp, fault) \<Rightarrow> status amp \<noteq> ACTIVE \<and> status amp \<noteq> ERROR)"

definition is_rate_limit_call :: "call \<Rightarrow> bool" where
  "is_rate_limit_call c =
     (case c of AddToBuildRequestQueue a p \<Rightarrow> True | RemoveFromBuildReqQueue a \<Rightarrow> True
      | _ \<Rightarrow> False)"

subsection \<open>The admission gate and the saga\<close>

text \<open>
  Modelled from the spec: \<^verbatim>\<open>octavia.controller.worker.amphora_rate_limit\<close> is not among
  the sources. Section 4.2: admit "registers an AdmissionTicket if below the configured
  build-concurrency limit; if the limit is disabled admission is unconditional"; at
  capacity the request is rejected (section 7, admission failure). Release "removes the
  ticket if present; idempotent". The tickets are kept by amphora id (section 5), each
  with its priority class.
\<close>

type_synonym tickets = "(string \<times> int) list"

definition admit :: "int \<Rightarrow> string \<Rightarrow> int \<Rightarrow> tickets \<Rightarrow> (exn + unit) \<times> tickets" where
  "admit limit amphora_id priority ts =
     (if limit = - 1 \<or> int (length ts) < limit
      then (Inr (), AList.update amphora_id priority ts)
      else (Inl (Raised ''admission failure''), ts))"

definition release :: "string \<Rightarrow> tickets \<Rightarrow> (exn + unit) \<times> tickets" where
  "release amphora_id ts = (Inr (), AList.delete amphora_id ts)"

definition admission_gate :: "int \<Rightarrow> tickets build_rate_limiter" where
  "admission_gate limit =
     \<lparr>add_to_build_request_queue = admit limit, remove_from_build_req_queue = release\<rparr>"

definition ticket_count :: "string \<Rightarrow> tickets \<Rightarrow> nat" where
  "ticket_count amphora_id ts = length (filter (\<lambda>t. fst t = amphora_id) ts)"

text \<open>
  Modelled from the spec: the orchestrator is the flow engine, not part of the sources.
  Section 2: it "sequences ... Instance Create \<rightarrow> Readiness Poller; on failure at any
  step it invokes reverts for all previously-succeeded steps in reverse order", and the
  step that failed is reverted with the failure marker (section 4.1). The saga ends with
  the failure that aborted it.
\<close>

definition provision ::
  "conf \<Rightarrow> templaters \<Rightarrow> 'd compute_driver \<Rightarrow> 'g build_rate_limiter \<Rightarrow>
   string \<Rightarrow> addr option \<Rightarrow> int \<Rightarrow> string option \<Rightarrow> addr option \<Rightarrow>
   addr option \<Rightarrow> addr option \<Rightarrow> ('d, 'g, (string \<times> string option) list) action" where
  "provision cfg tmpl drv rl amphora_id config_drive_files build_type_priority
       server_group_id ports flavor availability_zone w =
     (case ComputeCreate_execute cfg tmpl drv rl amphora_id config_drive_files
             build_type_priority server_group_id ports flavor availability_zone w of
        (Inl e, w1) \<Rightarrow>
          (case ComputeCreate_revert drv (Failure e) amphora_id w1 of
             (_, w2) \<Rightarrow> (Inl e, w2))
      | (Inr compute_id, w1) \<Rightarrow>
          (case ComputeActiveWait_execute cfg drv rl compute_id amphora_id
                  availability_zone w1 of
             (Inr amp, w2) \<Rightarrow> (Inr amp, w2)
           | (Inl e, w2) \<Rightarrow>
               (case ComputeCreate_revert drv (Str compute_id) amphora_id w2 of
                  (_, w3) \<Rightarrow> (Inl e, w3))))"

subsection \<open>A driver that answers from a script\<close>

text \<open>
  A test double for the driver: its state holds, for each operation, the answers still
  to give, and each call takes the next one. It serves to run the tasks on concrete
  inputs.
\<close>

record script =
  builds :: "(exn + string) list"
  deletes :: "(exn + unit) list"
  polls :: "(exn + amphora \<times> string option) list"
  group_creates :: "(exn + string) list"
  group_deletes :: "(exn + unit) list"

definition next_answer :: "(exn + 'a) list \<Rightarrow> exn + 'a" where
  "next_answer xs = (case xs of [] \<Rightarrow> Inl (Raised ''script exhausted'') | x # _ \<Rightarrow> x)"

definition scripted :: "script compute_driver" where
  "scripted =
     \<lparr>build = (\<lambda>args s. (next_answer (builds s), s\<lparr>builds := tl (builds s)\<rparr>)),
      delete = (\<lambda>h s. (next_answer (deletes s), s\<lparr>deletes := tl (deletes s)\<rparr>)),
      get_amphora = (\<lambda>h n s. (next_answer (polls s), s\<lparr>polls := tl (polls s)\<rparr>)),
      create_server_group =
        (\<lambda>n p s. (next_answer (group_creates s), s\<lparr>group_creates := tl (group_creates s)\<rparr>)),
      delete_server_group =
        (\<lambda>h s. (next_answer (group_deletes s), s\<lparr>group_deletes := tl (group_deletes s)\<rparr>))\<rparr>"

definition no_answers :: script where
  "no_answers = \<lparr>builds = [], deletes = [], polls = [], group_creates = [], group_deletes = []\<rparr>"

definition plain_templaters :: templaters where
  "plain_templaters =
     \<lparr>build_agent_config = (\<lambda>amphora_id topology. Inr (''agent:'' @ amphora_id)),
      build_logging_config = (\<lambda>override. Inr ''rsyslog''),
      build_user_data_config = (\<lambda>files. Inr ''user-data'')\<rparr>"

definition plain_conf :: conf where
  "plain_conf =
     \<lparr>amp_boot_network_list = [''boot-net-1'', ''boot-net-2''],
      user_data_config_drive = False,
      amp_ssh_key_name = ''key'',
      loadbalancer_topology = ''SINGLE'',
      amp_flavor_id = ''m1.small'',
      amp_image_id = ''image'',
      amp_image_tag = ''amphora'',
      amp_image_owner_id = ''owner'',
      amp_secgroup_list = [''lb-mgmt-sec-grp''],
      amp_active_retries = 3,
      amp_active_wait_sec = 0,
      build_rate_limit = 5,
      logging_template_override = None,
      anti_affinity_policy = ''anti-affinity''\<rparr>"

definition start :: "'d \<Rightarrow> 'g \<Rightarrow> ('d, 'g) world" where
  "start d g =
     \<lparr>compute = d, rate_limit = g, dicts = (\<lambda>a. []), port_lists = (\<lambda>a. []), nxt = 0,
      calls = [], logged = [], slept = []\<rparr>"

text \<open>An instance in a given status, and a load balancer with three amphorae.\<close>

definition amp_in :: "string \<Rightarrow> amphora" where
  "amp_in s = \<lparr>compute_handle = ''vm-1'', status = s, lb_network_ip = None\<rparr>"



text \<open>The network lists handed to the driver's \<^verbatim>\<open>build\<close>, call by call, in a history.\<close>

definition build_networks :: "call list \<Rightarrow> string list list" where
  "build_networks cs = concat (map (\<lambda>c. case c of Build args \<Rightarrow> [kw_network_ids args] | _ \<Rightarrow> []) cs)"



text \<open>A rate limiter whose release raises, as one does that cannot reach its database.\<close>

definition failing_release :: "tickets build_rate_limiter" where
  "failing_release =
     \<lparr>add_to_build_request_queue = admit 5,
      remove_from_build_req_queue = (\<lambda>amphora_id ts. (Inl (Raised ''database unavailable''), ts))\<rparr>"

section \<open>Properties\<close>

lemmas action_defs = return_def raise_def lift_def and_then_def try_except_def on_compute_def
  on_rate_limit_def log_def sleep_def setitem_def alloc_dict_def subscript_def comp_def Let_def

lemmas fixture_defs = plain_conf_def plain_templaters_def scripted_def no_answers_def
  next_answer_def start_def admission_gate_def admit_def release_def

subsection \<open>Reverts\<close>

text \<open>
  Claim C3. When \<^verbatim>\<open>ComputeCreate.execute\<close> returned a compute handle, a later
  \<^verbatim>\<open>ComputeCreate.revert\<close> with that result, run from any world, calls the driver's
  \<^verbatim>\<open>delete\<close> exactly once and with that handle: the one call it adds to the history is
  \<open>Delete compute_id\<close>, and the driver is left as that delete leaves it.
\<close>

theorem ComputeCreate_revert_deletes_created:
  assumes "fst (ComputeCreate_execute cfg tmpl drv rl amphora_id config_drive_files
                  build_type_priority server_group_id ports flavor availability_zone w)
           = Inr compute_id"
  shows "calls (snd (ComputeCreate_revert drv (Str compute_id) amphora_id w'))
           = calls w' @ [Delete compute_id] \<and>
         compute (snd (ComputeCreate_revert drv (Str compute_id) amphora_id w'))
           = snd (delete drv compute_id (compute w'))"
  by (simp add: ComputeCreate_revert_def action_defs split: prod.splits sum.splits)

theorem ComputeCreate_revert_deletes_created_witness:
  "fst (ComputeCreate_execute plain_conf plain_templaters scripted (admission_gate 5)
          ''amp-1'' None 40 None None None None
          (start (no_answers\<lparr>builds := [Inr ''vm-1'']\<rparr>) [])) = Inr ''vm-1'' \<and>
   calls (snd (ComputeCreate_revert scripted (Str ''vm-1'') ''amp-1''
                 (start (no_answers\<lparr>deletes := [Inr ()]\<rparr>) ([] :: tickets))))
     = [Delete ''vm-1'']"
proof -
  have h: "fst (ComputeCreate_execute plain_conf plain_templaters scripted (admission_gate 5)
          ''amp-1'' None 40 None None None None
          (start (no_answers\<lparr>builds := [Inr ''vm-1'']\<rparr>) [])) = Inr ''vm-1''"
    by (simp add: ComputeCreate_execute_def ComputeCreate_try_def fixture_defs action_defs)
  from ComputeCreate_revert_deletes_created [OF h,
      of "start (no_answers\<lparr>deletes := [Inr ()]\<rparr>) ([] :: tickets)"]
  show ?thesis using h by (simp add: start_def)
qed

text \<open>
  Claim C4, at the input where the code departs from it. Handed the failure marker,
  \<^verbatim>\<open>ComputeCreate.revert\<close> returns at once and leaves the world as it was, but
  \<^verbatim>\<open>NovaServerGroupCreate.revert\<close> has no such test: it calls the driver's
  \<^verbatim>\<open>delete_server_group\<close> once, with the failure marker as the group id.
\<close>

theorem NovaServerGroupCreate_revert_calls_driver_on_failure:
  "ComputeCreate_revert drv (Failure e) amphora_id w = (Inr (), w) \<and>
   calls (snd (NovaServerGroupCreate_revert drv (Failure e) w))
     = calls w @ [DeleteServerGroup (Failure e)]"
  by (simp add: ComputeCreate_revert_def NovaServerGroupCreate_revert_def action_defs
      split: prod.splits sum.splits)

text \<open>
  Claim C5. Whatever the result handed in and whatever the driver does, also when its
  delete raises, \<^verbatim>\<open>ComputeCreate.revert\<close> and \<^verbatim>\<open>NovaServerGroupCreate.revert\<close> return
  normally: neither ever raises, so a revert puts no exception in the place of the failure
  that is being unwound. When the driver's delete raises, the last thing the revert does
  is write the log record of its handler.
\<close>

theorem reverts_never_raise:
  "fst (ComputeCreate_revert drv result amphora_id w) = Inr () \<and>
   fst (NovaServerGroupCreate_revert drv result w) = Inr () \<and>
   (fst (delete drv h (compute w)) = Inl e \<longrightarrow>
      last (logged (snd (ComputeCreate_revert drv (Str h) amphora_id w)))
        = Log LException ''Reverting compute create failed'' []) \<and>
   (fst (delete_server_group drv result (compute w)) = Inl e \<longrightarrow>
      last (logged (snd (NovaServerGroupCreate_revert drv result w)))
        = Log LError ''Failed to delete server group.  Resources may still be in use for server group: %(sg)s due to error: %(except)s'' [])"
  by (simp add: ComputeCreate_revert_def NovaServerGroupCreate_revert_def action_defs
      split: prod.splits sum.splits pyobj.splits)

theorem reverts_never_raise_witness:
  "fst (delete scripted ''vm-1'' (no_answers\<lparr>deletes := [Inl (Raised ''boom'')]\<rparr>))
     = Inl (Raised ''boom'') \<and>
   fst (delete_server_group scripted (Str ''sg-1'')
          (no_answers\<lparr>group_deletes := [Inl (Raised ''boom'')]\<rparr>)) = Inl (Raised ''boom'') \<and>
   fst (ComputeCreate_revert scripted (Str ''vm-1'') ''amp-1''
          (start (no_answers\<lparr>deletes := [Inl (Raised ''boom'')]\<rparr>) ([] :: tickets))) = Inr () \<and>
   last (logged (snd (ComputeCreate_revert scripted (Str ''vm-1'') ''amp-1''
          (start (no_answers\<lparr>deletes := [Inl (Raised ''boom'')]\<rparr>) ([] :: tickets)))))
     = Log LException ''Reverting compute create failed'' [] \<and>
   fst (NovaServerGroupCreate_revert scripted (Str ''sg-1'')
          (start (no_answers\<lparr>group_deletes := [Inl (Raised ''boom'')]\<rparr>) ([] :: tickets)))
     = Inr () \<and>
   last (logged (snd (NovaServerGroupCreate_revert scripted (Str ''sg-1'')
          (start (no_answers\<lparr>group_deletes := [Inl (Raised ''boom'')]\<rparr>) ([] :: tickets)))))
     = Log LError ''Failed to delete server group.  Resources may still be in use for server group: %(sg)s due to error: %(except)s'' []"
proof -
  have d: "fst (delete scripted ''vm-1''
                  (compute (start (no_answers\<lparr>deletes := [Inl (Raised ''boom'')]\<rparr>) ([] :: tickets))))
           = Inl (Raised ''boom'')"
    by (simp add: fixture_defs)
  have g: "fst (delete_server_group scripted (Str ''sg-1'')
                  (compute (start (no_answers\<lparr>group_deletes := [Inl (Raised ''boom'')]\<rparr>)
                              ([] :: tickets))))
           = Inl (Raised ''boom'')"
    by (simp add: fixture_defs)
  from reverts_never_raise
         [of scripted "Str ''vm-1''" "''amp-1''"
             "start (no_answers\<lparr>deletes := [Inl (Raised ''boom'')]\<rparr>) ([] :: tickets)"
             "''vm-1''" "Raised ''boom''"]
       reverts_never_raise
         [of scripted "Str ''sg-1''" "''amp-1''"
             "start (no_answers\<lparr>group_deletes := [Inl (Raised ''boom'')]\<rparr>) ([] :: tickets)"
             "''vm-1''" "Raised ''boom''"]
       d g
  show ?thesis by (simp add: start_def)
qed

subsection \<open>NovaServerGroupDelete\<close>

text \<open>
  Claim C9, as stated, fails in one clause. The task tests \<^verbatim>\<open>is not None\<close>, so the empty
  string is a group id like any other: handed it, the task calls the driver's
  \<^verbatim>\<open>delete_server_group\<close> with the empty identifier.
\<close>

theorem NovaServerGroupDelete_execute_passes_empty_id:
  "calls (snd (NovaServerGroupDelete_execute scripted (Some [])
                 (start (no_answers\<lparr>group_deletes := [Inr ()]\<rparr>) ([] :: tickets))))
     = [DeleteServerGroup (Str [])]"
  by (simp add: NovaServerGroupDelete_execute_def fixture_defs action_defs)

text \<open>
  Claim C9, amended. With no group id (\<^verbatim>\<open>None\<close>), \<^verbatim>\<open>NovaServerGroupDelete.execute\<close>
  returns normally and leaves the world, its history of driver calls included, as it
  was: zero driver calls, and \<^verbatim>\<open>None\<close> is never handed to the driver. With any group id
  that is not \<^verbatim>\<open>None\<close>, the empty string included, it calls the driver's
  \<^verbatim>\<open>delete_server_group\<close> exactly once with that id: the run ends as that call ends, the
  driver is left as that one call leaves it, the call is the one record added to the
  history, and nothing else of the world changes.
\<close>

theorem NovaServerGroupDelete_execute_calls:
  "NovaServerGroupDelete_execute drv None w = (Inr (), w) \<and>
   calls (snd (NovaServerGroupDelete_execute drv (Some sg) w))
     = calls w @ [DeleteServerGroup (Str sg)] \<and>
   fst (NovaServerGroupDelete_execute drv (Some sg) w)
     = fst (delete_server_group drv (Str sg) (compute w)) \<and>
   compute (snd (NovaServerGroupDelete_execute drv (Some sg) w))
     = snd (delete_server_group drv (Str sg) (compute w)) \<and>
   NovaServerGroupDelete_execute drv (Some sg) w
     = (fst (delete_server_group drv (Str sg) (compute w)),
        w\<lparr>compute := snd (delete_server_group drv (Str sg) (compute w)),
          calls := calls w @ [DeleteServerGroup (Str sg)]\<rparr>)"
  by (simp add: NovaServerGroupDelete_execute_def action_defs split: prod.splits)

subsection \<open>DeleteAmphoraeOnLoadBalancer\<close>





subsection \<open>ComputeActiveWait\<close>

text \<open>
  The loop, by induction on the retries left: polls that report a status other than
  ACTIVE and ERROR are each followed by a sleep and the next poll; when they are all
  there is, the loop ends in the timeout.
\<close>

lemma active_wait_timeout:
  "list_all building (reported drv c n m (compute w)) \<Longrightarrow>
   fst (active_wait cfg drv rl c a n m w) = Inl (ComputeWaitTimeoutException c) \<and>
   calls (snd (active_wait cfg drv rl c a n m w)) = calls w @ replicate m (GetAmphora c n) \<and>
   rate_limit (snd (active_wait cfg drv rl c a n m w)) = rate_limit w"
proof (induction m arbitrary: w)
  case 0
  then show ?case by (simp add: raise_def)
next
  case (Suc m)
  obtain r d' where g: "get_amphora drv c n (compute w) = (r, d')" by (cases "get_amphora drv c n (compute w)")
  with Suc.prems have b: "building r" and rest: "list_all building (reported drv c n m d')" by simp_all
  from b obtain amp fault where r: "r = Inr (amp, fault)" and s: "status amp \<noteq> ACTIVE" "status amp \<noteq> ERROR"
    by (auto simp: building_def split: sum.splits)
  let ?w1 = "sleep (amp_active_wait_sec cfg) (w\<lparr>compute := d', calls := calls w @ [GetAmphora c n]\<rparr>)"
  have step: "active_wait cfg drv rl c a n (Suc m) w = active_wait cfg drv rl c a n m ?w1"
    using g r s by (simp add: on_compute_def)
  have "list_all building (reported drv c n m (compute ?w1))" using rest by (simp add: sleep_def)
  from Suc.IH[OF this] show ?case unfolding step by (simp add: sleep_def replicate_app_Cons_same)
qed

lemma active_wait_terminal:
  "k < m \<Longrightarrow> list_all building (take k (reported drv c n m (compute w))) \<Longrightarrow>
   reported drv c n m (compute w) ! k = Inr (amp, fault) \<Longrightarrow> status amp = ACTIVE \<or> status amp = ERROR \<Longrightarrow>
   \<exists>w1. calls w1 = calls w @ replicate (Suc k) (GetAmphora c n) \<and> rate_limit w1 = rate_limit w \<and>
     active_wait cfg drv rl c a n m w =
       (if status amp = ACTIVE then
            and_then
              (if build_rate_limit cfg \<noteq> - 1
               then on_rate_limit (RemoveFromBuildReqQueue a)
                      (remove_from_build_req_queue rl a)
               else return ())
              (\<lambda>_. return (to_dict amp)) w1
        else raise (ComputeBuildException fault) w1)"
proof (induction m arbitrary: w k)
  case 0
  then show ?case by simp
next
  case (Suc m)
  obtain r d' where g: "get_amphora drv c n (compute w) = (r, d')" by (cases "get_amphora drv c n (compute w)")
  show ?case
  proof (cases k)
    case 0
    with Suc.prems g have r: "r = Inr (amp, fault)" by simp
    let ?w1 = "w\<lparr>compute := d', calls := calls w @ [GetAmphora c n]\<rparr>"
    have "active_wait cfg drv rl c a n (Suc m) w =
       (if status amp = ACTIVE then
            and_then
              (if build_rate_limit cfg \<noteq> - 1
               then on_rate_limit (RemoveFromBuildReqQueue a)
                      (remove_from_build_req_queue rl a)
               else return ())
              (\<lambda>_. return (to_dict amp)) ?w1
        else raise (ComputeBuildException fault) ?w1)"
      using g r Suc.prems(4) by (auto simp add: on_compute_def)
    moreover have "calls ?w1 = calls w @ replicate (Suc k) (GetAmphora c n) \<and> rate_limit ?w1 = rate_limit w"
      using 0 by simp
    ultimately show ?thesis by blast
  next
    case (Suc k')
    with Suc.prems g have b: "building r" and rest: "list_all building (take k' (reported drv c n m d'))"
      and at: "reported drv c n m d' ! k' = Inr (amp, fault)" and lt: "k' < m" by simp_all
    from b obtain amp0 fault0 where r: "r = Inr (amp0, fault0)" and s: "status amp0 \<noteq> ACTIVE" "status amp0 \<noteq> ERROR"
      by (auto simp: building_def split: sum.splits)
    let ?w1 = "sleep (amp_active_wait_sec cfg) (w\<lparr>compute := d', calls := calls w @ [GetAmphora c n]\<rparr>)"
    have step: "active_wait cfg drv rl c a n (Suc m) w = active_wait cfg drv rl c a n m ?w1"
      using g r s by (simp add: on_compute_def)
    have c: "compute ?w1 = d'" by (simp add: sleep_def)
    from Suc.IH[of k' ?w1] lt rest at Suc.prems(4) c
    obtain w2 where "calls w2 = calls ?w1 @ replicate (Suc k') (GetAmphora c n)" "rate_limit w2 = rate_limit ?w1"
      "active_wait cfg drv rl c a n m ?w1 =
       (if status amp = ACTIVE then
            and_then
              (if build_rate_limit cfg \<noteq> - 1
               then on_rate_limit (RemoveFromBuildReqQueue a)
                      (remove_from_build_req_queue rl a)
               else return ())
              (\<lambda>_. return (to_dict amp)) w2
        else raise (ComputeBuildException fault) w2)" by auto
    then show ?thesis unfolding step using Suc by (intro exI[of _ w2]) (simp add: sleep_def)
  qed
qed

text \<open>
  Claim C1, as stated, fails. The release of the ticket is a call of the rate limiter
  outside any \<^verbatim>\<open>try\<close>: when the first poll reports ACTIVE, the limit is enabled and the
  release raises, \<^verbatim>\<open>ComputeActiveWait.execute\<close> raises that exception after the one poll
  instead of returning the instance description.
\<close>

theorem ComputeActiveWait_execute_release_raises:
  "fst (ComputeActiveWait_execute plain_conf scripted failing_release ''vm-1'' ''amp-1'' None
          (start (no_answers\<lparr>polls := [Inr (amp_in ACTIVE, None)]\<rparr>) [(''amp-1'', 40)]))
     = Inl (Raised ''database unavailable'') \<and>
   calls (snd (ComputeActiveWait_execute plain_conf scripted failing_release ''vm-1'' ''amp-1''
          None (start (no_answers\<lparr>polls := [Inr (amp_in ACTIVE, None)]\<rparr>) [(''amp-1'', 40)])))
     = [GetAmphora ''vm-1'' None, RemoveFromBuildReqQueue ''amp-1'']"
  by (simp add: ComputeActiveWait_execute_def fixture_defs failing_release_def action_defs
        amp_in_def eval_nat_numeral)

text \<open>
  Claim C1, amended. Let the retry bound be at least 1 and \<open>rs\<close> the statuses the driver
  reports to that many successive polls. The outcome of \<^verbatim>\<open>ComputeActiveWait.execute\<close> is
  fixed by \<open>rs\<close> and, on ACTIVE, by how the release ends. If the poll at position \<open>k\<close> is
  the first that is not building and it reports ACTIVE, then after exactly \<open>k + 1\<close> polls
  the task, with the limit disabled, returns the instance's \<open>to_dict\<close> without a call of
  the rate limiter; with the limit enabled it calls the release of the amphora's ticket
  once and returns the instance's \<open>to_dict\<close> if the release returns, and raises the
  exception of the release if it raises. If that poll reports ERROR, the task raises the
  build exception with the fault the driver reported, after exactly \<open>k + 1\<close> polls and
  no call of the rate limiter. If all polls are building, the task raises the timeout
  exception naming the compute id after exactly as many polls as the bound.
\<close>

theorem ComputeActiveWait_execute_outcome:
  assumes r: "1 \<le> amp_active_retries cfg"
    and net: "amp_network =
            (case availability_zone of
               Some z \<Rightarrow> if dicts w z \<noteq> [] then map_of (dicts w z) MANAGEMENT_NETWORK else None
             | None \<Rightarrow> None)"
    and rs: "rs = reported drv compute_id amp_network (nat (amp_active_retries cfg)) (compute w)"
    and run: "ComputeActiveWait_execute cfg drv rl compute_id amphora_id availability_zone w
              = (res, w')"
  shows
   "(k < nat (amp_active_retries cfg) \<and> list_all building (take k rs) \<and>
     rs ! k = Inr (amp, fault) \<and> status amp = ACTIVE \<longrightarrow>
       res = (if build_rate_limit cfg = - 1 then Inr (to_dict amp)
              else case fst (remove_from_build_req_queue rl amphora_id (rate_limit w)) of
                     Inl e \<Rightarrow> Inl e
                   | Inr u \<Rightarrow> Inr (to_dict amp)) \<and>
       calls w' = calls w @ replicate (Suc k) (GetAmphora compute_id amp_network) @
                  (if build_rate_limit cfg = - 1 then []
                   else [RemoveFromBuildReqQueue amphora_id]) \<and>
       rate_limit w' = (if build_rate_limit cfg = - 1 then rate_limit w
                        else snd (remove_from_build_req_queue rl amphora_id (rate_limit w)))) \<and>
    (k < nat (amp_active_retries cfg) \<and> list_all building (take k rs) \<and>
     rs ! k = Inr (amp, fault) \<and> status amp = ERROR \<longrightarrow>
       res = Inl (ComputeBuildException fault) \<and>
       calls w' = calls w @ replicate (Suc k) (GetAmphora compute_id amp_network) \<and>
       rate_limit w' = rate_limit w) \<and>
    (list_all building rs \<longrightarrow>
       res = Inl (ComputeWaitTimeoutException compute_id) \<and>
       calls w' = calls w @ replicate (nat (amp_active_retries cfg))
                              (GetAmphora compute_id amp_network) \<and>
       rate_limit w' = rate_limit w)"
proof -
  let ?m = "nat (amp_active_retries cfg)"
  have run': "active_wait cfg drv rl compute_id amphora_id amp_network ?m w = (res, w')"
    using run net by (simp add: ComputeActiveWait_execute_def)
  have ne: "ACTIVE \<noteq> ERROR" by (simp add: ACTIVE_def ERROR_def)
  have A: "res = (if build_rate_limit cfg = - 1 then Inr (to_dict amp)
              else case fst (remove_from_build_req_queue rl amphora_id (rate_limit w)) of
                     Inl e \<Rightarrow> Inl e
                   | Inr u \<Rightarrow> Inr (to_dict amp)) \<and>
       calls w' = calls w @ replicate (Suc k) (GetAmphora compute_id amp_network) @
                  (if build_rate_limit cfg = - 1 then []
                   else [RemoveFromBuildReqQueue amphora_id]) \<and>
       rate_limit w' = (if build_rate_limit cfg = - 1 then rate_limit w
                        else snd (remove_from_build_req_queue rl amphora_id (rate_limit w)))"
    if h: "k < ?m" "list_all building (take k rs)" "rs ! k = Inr (amp, fault)"
      "status amp = ACTIVE"
  proof -
    from active_wait_terminal [of k ?m drv compute_id amp_network w amp fault cfg rl amphora_id]
      h rs
    obtain w1 where w1: "calls w1 = calls w @ replicate (Suc k) (GetAmphora compute_id amp_network)"
      "rate_limit w1 = rate_limit w"
      "active_wait cfg drv rl compute_id amphora_id amp_network ?m w =
         and_then
              (if build_rate_limit cfg \<noteq> - 1
               then on_rate_limit (RemoveFromBuildReqQueue amphora_id)
                      (remove_from_build_req_queue rl amphora_id)
               else return ())
              (\<lambda>_. return (to_dict amp)) w1" by auto
    show ?thesis
    proof (cases "build_rate_limit cfg = - 1")
      case True
      with w1 run' show ?thesis by (simp add: and_then_def return_def)
    next
      case False
      obtain x g' where rel: "remove_from_build_req_queue rl amphora_id (rate_limit w) = (x, g')"
        by (cases "remove_from_build_req_queue rl amphora_id (rate_limit w)")
      with w1 run' False show ?thesis
        by (cases x) (auto simp add: and_then_def return_def on_rate_limit_def)
    qed
  qed
  have E: "res = Inl (ComputeBuildException fault) \<and>
       calls w' = calls w @ replicate (Suc k) (GetAmphora compute_id amp_network) \<and>
       rate_limit w' = rate_limit w"
    if h: "k < ?m" "list_all building (take k rs)" "rs ! k = Inr (amp, fault)"
      "status amp = ERROR"
  proof -
    from active_wait_terminal [of k ?m drv compute_id amp_network w amp fault cfg rl amphora_id]
      h rs ne
    obtain w1 where w1: "calls w1 = calls w @ replicate (Suc k) (GetAmphora compute_id amp_network)"
      "rate_limit w1 = rate_limit w"
      "active_wait cfg drv rl compute_id amphora_id amp_network ?m w =
         raise (ComputeBuildException fault) w1" by auto
    with run' show ?thesis by (simp add: raise_def)
  qed
  have T: "res = Inl (ComputeWaitTimeoutException compute_id) \<and>
       calls w' = calls w @ replicate ?m (GetAmphora compute_id amp_network) \<and>
       rate_limit w' = rate_limit w"
    if h: "list_all building rs"
    using active_wait_timeout [of drv compute_id amp_network ?m w cfg rl amphora_id] h rs run'
    by simp
  from A E T show ?thesis by blast
qed

theorem ComputeActiveWait_execute_outcome_witness:
  "fst (ComputeActiveWait_execute plain_conf scripted (admission_gate 5) ''vm-1'' ''amp-1'' None
         (start (no_answers\<lparr>polls := [Inr (amp_in ''BUILD'', None), Inr (amp_in ''BUILD'', None),
                                        Inr (amp_in ACTIVE, None)]\<rparr>) [(''amp-1'', 40)]))
     = Inr (to_dict (amp_in ACTIVE)) \<and>
   calls (snd (ComputeActiveWait_execute plain_conf scripted (admission_gate 5) ''vm-1'' ''amp-1'' None
         (start (no_answers\<lparr>polls := [Inr (amp_in ''BUILD'', None), Inr (amp_in ''BUILD'', None),
                                        Inr (amp_in ACTIVE, None)]\<rparr>) [(''amp-1'', 40)])))
     = [GetAmphora ''vm-1'' None, GetAmphora ''vm-1'' None, GetAmphora ''vm-1'' None,
        RemoveFromBuildReqQueue ''amp-1''] \<and>
   rate_limit (snd (ComputeActiveWait_execute plain_conf scripted (admission_gate 5) ''vm-1'' ''amp-1'' None
         (start (no_answers\<lparr>polls := [Inr (amp_in ''BUILD'', None), Inr (amp_in ''BUILD'', None),
                                        Inr (amp_in ACTIVE, None)]\<rparr>) [(''amp-1'', 40)])))
     = [] \<and>
   fst (ComputeActiveWait_execute plain_conf scripted (admission_gate 5) ''vm-1'' ''amp-1'' None
         (start (no_answers\<lparr>polls := [Inr (amp_in ERROR, Some ''no valid host'')]\<rparr>)
            [(''amp-1'', 40)]))
     = Inl (ComputeBuildException (Some ''no valid host'')) \<and>
   calls (snd (ComputeActiveWait_execute plain_conf scripted (admission_gate 5) ''vm-1'' ''amp-1'' None
         (start (no_answers\<lparr>polls := [Inr (amp_in ERROR, Some ''no valid host'')]\<rparr>)
            [(''amp-1'', 40)])))
     = [GetAmphora ''vm-1'' None] \<and>
   fst (ComputeActiveWait_execute (plain_conf\<lparr>amp_active_retries := 2\<rparr>) scripted
          (admission_gate 5) ''vm-1'' ''amp-1'' None
          (start (no_answers\<lparr>polls := [Inr (amp_in ''BUILD'', None), Inr (amp_in ''BUILD'', None)]\<rparr>)
             [(''amp-1'', 40)]))
     = Inl (ComputeWaitTimeoutException ''vm-1'') \<and>
   calls (snd (ComputeActiveWait_execute (plain_conf\<lparr>amp_active_retries := 2\<rparr>) scripted
          (admission_gate 5) ''vm-1'' ''amp-1'' None
          (start (no_answers\<lparr>polls := [Inr (amp_in ''BUILD'', None), Inr (amp_in ''BUILD'', None)]\<rparr>)
             [(''amp-1'', 40)])))
     = [GetAmphora ''vm-1'' None, GetAmphora ''vm-1'' None] \<and>
   fst (ComputeActiveWait_execute plain_conf scripted failing_release ''vm-1'' ''amp-1'' None
         (start (no_answers\<lparr>polls := [Inr (amp_in ACTIVE, None)]\<rparr>) [(''amp-1'', 40)]))
     = Inl (Raised ''database unavailable'')"
proof -
  let ?wf = "start (no_answers\<lparr>polls := [Inr (amp_in ACTIVE, None)]\<rparr>) [(''amp-1'', 40 :: int)]"
  have fr: "reported scripted ''vm-1'' None (nat (amp_active_retries plain_conf)) (compute ?wf)
           = [Inr (amp_in ACTIVE, None), Inl (Raised ''script exhausted''),
              Inl (Raised ''script exhausted'')]"
    by (simp add: fixture_defs eval_nat_numeral)
  have n4: "None = (case None of Some z \<Rightarrow> if dicts ?wf z \<noteq> [] then map_of (dicts ?wf z) MANAGEMENT_NETWORK else None
             | None \<Rightarrow> None)" by simp
  let ?wa = "start (no_answers\<lparr>polls := [Inr (amp_in ''BUILD'', None), Inr (amp_in ''BUILD'', None),
                                        Inr (amp_in ACTIVE, None)]\<rparr>) [(''amp-1'', 40 :: int)]"
  let ?we = "start (no_answers\<lparr>polls := [Inr (amp_in ERROR, Some ''no valid host'')]\<rparr>)
                [(''amp-1'', 40 :: int)]"
  let ?wt = "start (no_answers\<lparr>polls := [Inr (amp_in ''BUILD'', None), Inr (amp_in ''BUILD'', None)]\<rparr>)
                [(''amp-1'', 40 :: int)]"
  let ?c2 = "plain_conf\<lparr>amp_active_retries := 2\<rparr>"
  have a: "reported scripted ''vm-1'' None (nat (amp_active_retries plain_conf)) (compute ?wa)
           = [Inr (amp_in ''BUILD'', None), Inr (amp_in ''BUILD'', None), Inr (amp_in ACTIVE, None)]"
    by (simp add: fixture_defs eval_nat_numeral)
  have e: "reported scripted ''vm-1'' None (nat (amp_active_retries plain_conf)) (compute ?we)
           = [Inr (amp_in ERROR, Some ''no valid host''), Inl (Raised ''script exhausted''),
              Inl (Raised ''script exhausted'')]"
    by (simp add: fixture_defs eval_nat_numeral)
  have t: "reported scripted ''vm-1'' None (nat (amp_active_retries ?c2)) (compute ?wt)
           = [Inr (amp_in ''BUILD'', None), Inr (amp_in ''BUILD'', None)]"
    by (simp add: fixture_defs eval_nat_numeral)
  have r3: "1 \<le> amp_active_retries plain_conf" by (simp add: plain_conf_def)
  have r2: "1 \<le> amp_active_retries ?c2" by simp
  have n1: "None = (case None of Some z \<Rightarrow> if dicts ?wa z \<noteq> [] then map_of (dicts ?wa z) MANAGEMENT_NETWORK else None
             | None \<Rightarrow> None)" by simp
  have n2: "None = (case None of Some z \<Rightarrow> if dicts ?we z \<noteq> [] then map_of (dicts ?we z) MANAGEMENT_NETWORK else None
             | None \<Rightarrow> None)" by simp
  have n3: "None = (case None of Some z \<Rightarrow> if dicts ?wt z \<noteq> [] then map_of (dicts ?wt z) MANAGEMENT_NETWORK else None
             | None \<Rightarrow> None)" by simp
  have b: "building (Inr (amp_in ''BUILD'', None))"
    by (simp add: building_def amp_in_def ACTIVE_def ERROR_def)
  from ComputeActiveWait_execute_outcome
         [where cfg = plain_conf and availability_zone = None and w = ?wa and drv = scripted
            and compute_id = "''vm-1''" and rl = "admission_gate 5" and amphora_id = "''amp-1''"
            and k = 2 and amp = "amp_in ACTIVE" and fault = None
            and amp_network = None, OF r3 n1 a [symmetric] surjective_pairing]
       b
  have 1: "fst (ComputeActiveWait_execute plain_conf scripted (admission_gate 5) ''vm-1'' ''amp-1''
                  None ?wa) = Inr (to_dict (amp_in ACTIVE)) \<and>
           calls (snd (ComputeActiveWait_execute plain_conf scripted (admission_gate 5) ''vm-1''
                  ''amp-1'' None ?wa))
             = [GetAmphora ''vm-1'' None, GetAmphora ''vm-1'' None, GetAmphora ''vm-1'' None,
                RemoveFromBuildReqQueue ''amp-1''] \<and>
           rate_limit (snd (ComputeActiveWait_execute plain_conf scripted (admission_gate 5)
                  ''vm-1'' ''amp-1'' None ?wa)) = []"
    by (simp add: plain_conf_def amp_in_def admission_gate_def release_def start_def
          eval_nat_numeral)
  from ComputeActiveWait_execute_outcome
         [where cfg = plain_conf and availability_zone = None and w = ?we and drv = scripted
            and compute_id = "''vm-1''" and rl = "admission_gate 5" and amphora_id = "''amp-1''"
            and k = 0 and amp = "amp_in ERROR" and fault = "Some ''no valid host''"
            and amp_network = None, OF r3 n2 e [symmetric] surjective_pairing]
  have 2: "fst (ComputeActiveWait_execute plain_conf scripted (admission_gate 5) ''vm-1'' ''amp-1''
                  None ?we) = Inl (ComputeBuildException (Some ''no valid host'')) \<and>
           calls (snd (ComputeActiveWait_execute plain_conf scripted (admission_gate 5) ''vm-1''
                  ''amp-1'' None ?we)) = [GetAmphora ''vm-1'' None]"
    by (simp add: plain_conf_def amp_in_def start_def)
  from ComputeActiveWait_execute_outcome
         [where cfg = ?c2 and availability_zone = None and w = ?wt and drv = scripted
            and compute_id = "''vm-1''" and rl = "admission_gate 5" and amphora_id = "''amp-1''"
            and amp_network = None, OF r2 n3 t [symmetric] surjective_pairing]
       b
  have 3: "fst (ComputeActiveWait_execute ?c2 scripted (admission_gate 5) ''vm-1'' ''amp-1''
                  None ?wt) = Inl (ComputeWaitTimeoutException ''vm-1'') \<and>
           calls (snd (ComputeActiveWait_execute ?c2 scripted (admission_gate 5) ''vm-1''
                  ''amp-1'' None ?wt)) = [GetAmphora ''vm-1'' None, GetAmphora ''vm-1'' None]"
    by (simp add: plain_conf_def start_def eval_nat_numeral)
  from ComputeActiveWait_execute_outcome
         [where cfg = plain_conf and availability_zone = None and w = ?wf and drv = scripted
            and compute_id = "''vm-1''" and rl = failing_release and amphora_id = "''amp-1''"
            and k = 0 and amp = "amp_in ACTIVE" and fault = None
            and amp_network = None, OF r3 n4 fr [symmetric] surjective_pairing]
  have 4: "fst (ComputeActiveWait_execute plain_conf scripted failing_release ''vm-1'' ''amp-1''
                  None ?wf) = Inl (Raised ''database unavailable'')"
    by (simp add: plain_conf_def amp_in_def failing_release_def start_def)
  from 1 2 3 4 show ?thesis by simp
qed

subsection \<open>ComputeCreate.execute\<close>

text \<open>
  Running a sequence of statements symbolically: a run of \<open>and_then\<close> or \<open>try_except\<close>
  is a run of its first part followed, as the outcome says, by a run of the second; a
  run of a single effect says what the world after it is.
\<close>

lemma build_networks_append [simp]:
  "build_networks (xs @ ys) = build_networks xs @ build_networks ys"
  by (simp add: build_networks_def)

lemma build_networks_simps [simp]:
  "build_networks [] = []"
  "build_networks (Build args # cs) = kw_network_ids args # build_networks cs"
  "build_networks (AddToBuildRequestQueue a p # cs) = build_networks cs"
  by (simp_all add: build_networks_def)

lemma and_thenE:
  assumes "and_then m f w = (r, w')"
  obtains (raised) e where "m w = (Inl e, w')" "r = Inl e"
  | (returned) x w1 where "m w = (Inr x, w1)" "f x w1 = (r, w')"
  using assms by (auto simp: and_then_def split: prod.splits sum.splits)

lemma try_exceptE:
  assumes "try_except m h w = (r, w')"
  obtains (raised) e w1 where "m w = (Inl e, w1)" "h e w1 = (r, w')"
  | (returned) x where "m w = (Inr x, w')" "r = Inr x"
  using assms by (auto simp: try_except_def split: prod.splits sum.splits)

lemma on_compute_eq:
  "on_compute c f w = (r, w') \<longleftrightarrow>
   (\<exists>d'. f (compute w) = (r, d') \<and> w' = w\<lparr>compute := d', calls := calls w @ [c]\<rparr>)"
  by (auto simp: on_compute_def split: prod.splits)

lemma on_rate_limit_eq:
  "on_rate_limit c f w = (r, w') \<longleftrightarrow>
   (\<exists>g'. f (rate_limit w) = (r, g') \<and> w' = w\<lparr>rate_limit := g', calls := calls w @ [c]\<rparr>)"
  by (auto simp: on_rate_limit_def split: prod.splits)

lemma lift_eq: "lift x w = (r, w') \<longleftrightarrow> x = r \<and> w' = w"
  by (auto simp: lift_def)

lemma return_eq: "return x w = (r, w') \<longleftrightarrow> r = Inr x \<and> w' = w"
  by (auto simp: return_def)

lemma raise_eq: "raise e w = (r, w') \<longleftrightarrow> r = Inl e \<and> w' = w"
  by (auto simp: raise_def)

lemmas step_eqs = on_compute_eq on_rate_limit_eq lift_eq return_eq raise_eq comp_def
  log_def setitem_def




lemma ComputeCreate_try_rate_limit_disabled:
  assumes "ComputeCreate_try cfg tmpl drv rl a cdf p sg ports topo fl nets az w = (r, w')"
    and "build_rate_limit cfg = - 1"
  shows "rate_limit w' = rate_limit w \<and>
         filter is_rate_limit_call (calls w') = filter is_rate_limit_call (calls w)"
  using assms unfolding ComputeCreate_try_def Let_def
  by (auto simp: step_eqs is_rate_limit_call_def elim!: and_thenE split: if_splits sum.splits)




lemma ComputeCreate_try_admission:
  assumes "ComputeCreate_try cfg tmpl drv rl a cdf p sg ports topo fl nets az w = (r, w')"
    and "build_rate_limit cfg \<noteq> - 1"
  shows "rate_limit w' = snd (add_to_build_request_queue rl a p (rate_limit w)) \<and>
         filter is_rate_limit_call (calls w')
           = filter is_rate_limit_call (calls w) @ [AddToBuildRequestQueue a p] \<and>
         (isl (fst (add_to_build_request_queue rl a p (rate_limit w))) \<longrightarrow> isl r)"
  using assms unfolding ComputeCreate_try_def Let_def
  by (auto simp: step_eqs is_rate_limit_call_def elim!: and_thenE split: if_splits sum.splits)

text \<open>
  A run of \<^verbatim>\<open>execute\<close> is a run of its \<^verbatim>\<open>try\<close> block from the world the first lines
  prepare (a fresh dict when none came, the debug record), with the locals they resolve;
  the handler adds a log record when the block raised.
\<close>

lemma ComputeCreate_execute_cases:
  assumes run: "ComputeCreate_execute cfg tmpl drv rl a cdf p sg ports flavor az w = (r, w')"
  obtains target w1 ports' topo fl zone wt where
    "target = (case cdf of Some c \<Rightarrow> if dicts w c \<noteq> [] then c else nxt w | None \<Rightarrow> nxt w)"
    "w1 = log LDebug ''Compute create execute for amphora with id %s'' [a]
            (case cdf of Some c \<Rightarrow> if dicts w c \<noteq> [] then w else snd (alloc_dict [] w)
             | None \<Rightarrow> snd (alloc_dict [] w))"
    "ComputeCreate_try cfg tmpl drv rl a target p sg ports' topo fl
        (case az of
           Some z \<Rightarrow>
             if dicts w1 z \<noteq> []
             then (case map_of (dicts w1 z) MANAGEMENT_NETWORK of
                     Some n \<Rightarrow> if n \<noteq> [] then [n] else amp_boot_network_list cfg
                   | None \<Rightarrow> amp_boot_network_list cfg)
             else amp_boot_network_list cfg
         | None \<Rightarrow> amp_boot_network_list cfg)
        zone w1 = (r, wt)"
    "w' = (if isl r then log LException ''Compute create for amphora id: %s failed'' [a] wt
           else wt)"
proof -
  define target where
    "target = (case cdf of Some c \<Rightarrow> if dicts w c \<noteq> [] then c else nxt w | None \<Rightarrow> nxt w)"
  define w0 where
    "w0 = (case cdf of Some c \<Rightarrow> if dicts w c \<noteq> [] then w else snd (alloc_dict [] w)
           | None \<Rightarrow> snd (alloc_dict [] w))"
  define w1 where "w1 = log LDebug ''Compute create execute for amphora with id %s'' [a] w0"
  have pre: "(case cdf of Some a \<Rightarrow> if dicts w a \<noteq> [] then (a, w) else alloc_dict [] w
              | None \<Rightarrow> alloc_dict [] w) = (target, w0)"
    by (simp add: target_def w0_def alloc_dict_def split: option.splits)
  define ports' where
    "ports' = (case ports of Some p \<Rightarrow> if port_lists w p \<noteq> [] then port_lists w p else []
               | None \<Rightarrow> [])"
  define tf where
    "tf = (case flavor of
                Some f \<Rightarrow>
                  if dicts w1 f \<noteq> []
                  then (case_option (loadbalancer_topology cfg) (\<lambda>v. v)
                          (map_of (dicts w1 f) LOADBALANCER_TOPOLOGY),
                        case_option (amp_flavor_id cfg) (\<lambda>v. v)
                          (map_of (dicts w1 f) COMPUTE_FLAVOR))
                  else (loadbalancer_topology cfg, amp_flavor_id cfg)
              | None \<Rightarrow> (loadbalancer_topology cfg, amp_flavor_id cfg))"
  define zn where
    "zn = (case az of
                Some z \<Rightarrow>
                  if dicts w1 z \<noteq> []
                  then (map_of (dicts w1 z) COMPUTE_ZONE,
                        (case map_of (dicts w1 z) MANAGEMENT_NETWORK of
                           Some amp_network \<Rightarrow>
                             if amp_network \<noteq> [] then [amp_network] else amp_boot_network_list cfg
                         | None \<Rightarrow> amp_boot_network_list cfg))
                  else (None, amp_boot_network_list cfg)
              | None \<Rightarrow> (None, amp_boot_network_list cfg))"
  have nets: "snd zn = (case az of
           Some z \<Rightarrow>
             if dicts w1 z \<noteq> []
             then (case map_of (dicts w1 z) MANAGEMENT_NETWORK of
                     Some n \<Rightarrow> if n \<noteq> [] then [n] else amp_boot_network_list cfg
                   | None \<Rightarrow> amp_boot_network_list cfg)
             else amp_boot_network_list cfg
         | None \<Rightarrow> amp_boot_network_list cfg)"
    by (simp add: zn_def split: option.splits)
  have eq: "ComputeCreate_execute cfg tmpl drv rl a cdf p sg ports flavor az w =
        try_except
           (ComputeCreate_try cfg tmpl drv rl a target p sg ports' (fst tf) (snd tf) (snd zn) (fst zn))
           (\<lambda>e. raise e \<circ> log LException ''Compute create for amphora id: %s failed'' [a])
           w1"
    unfolding ComputeCreate_execute_def Let_def pre prod.case case_prod_beta fst_conv snd_conv
      w1_def ports'_def tf_def zn_def
    by (rule refl)
  from run [unfolded eq] show thesis
  proof (cases rule: try_exceptE)
    case (raised e wt)
    then show ?thesis
      using that [of target w1 ports' "fst tf" "snd tf" "fst zn" wt]
      by (auto simp: target_def w1_def w0_def nets raise_eq comp_def)
  next
    case (returned x)
    then show ?thesis
      using that [of target w1 ports' "fst tf" "snd tf" "fst zn" w']
      by (auto simp: target_def w1_def w0_def nets)
  qed
qed

lemma prepared_world:
  fixes w :: "('d, 'g) world"
  assumes "w1 = log lv msg args
            (case cdf of Some c \<Rightarrow> if dicts w c \<noteq> [] then w else snd (alloc_dict [] w)
             | None \<Rightarrow> snd (alloc_dict [] w))"
  shows "calls w1 = calls w" "rate_limit w1 = rate_limit w" "port_lists w1 = port_lists w"
    "z < nxt w \<Longrightarrow> dicts w1 z = dicts w z"
    "cdf = Some c \<Longrightarrow> dicts w c \<noteq> [] \<Longrightarrow> dicts w1 = dicts w"
  using assms by (simp_all add: log_def alloc_dict_def split: option.splits)

lemma finished_world:
  assumes "w' = (if b then log lv msg args wt else wt)"
  shows "calls w' = calls wt" "rate_limit w' = rate_limit wt" "port_lists w' = port_lists wt"
    "dicts w' = dicts wt"
  using assms by (simp_all add: log_def)

lemmas run_defs = ComputeCreate_execute_def ComputeCreate_try_def ComputeActiveWait_execute_def
  ComputeCreate_revert_def provision_def fixture_defs action_defs



subsection \<open>The disabled rate limit\<close>

lemma active_wait_disabled:
  "build_rate_limit cfg = - 1 \<Longrightarrow>
   rate_limit (snd (active_wait cfg drv rl c a n m w)) = rate_limit w \<and>
   filter is_rate_limit_call (calls (snd (active_wait cfg drv rl c a n m w)))
     = filter is_rate_limit_call (calls w)"
proof (induction m arbitrary: w)
  case 0
  then show ?case by (simp add: raise_def)
next
  case (Suc m)
  obtain r d' where g: "get_amphora drv c n (compute w) = (r, d')"
    by (cases "get_amphora drv c n (compute w)")
  let ?w1 = "w\<lparr>compute := d', calls := calls w @ [GetAmphora c n]\<rparr>"
  show ?case
  proof (cases r)
    case (Inl e)
    with g show ?thesis by (simp add: on_compute_def is_rate_limit_call_def)
  next
    case (Inr af)
    obtain amp fault where af: "af = (amp, fault)" by (cases af)
    from Suc.IH [OF Suc.prems, of "sleep (amp_active_wait_sec cfg) ?w1"]
    show ?thesis using g Inr af Suc.prems
      by (simp add: on_compute_def is_rate_limit_call_def and_then_def return_def raise_def
            sleep_def)
  qed
qed

text \<open>
  Claim C10. With \<^verbatim>\<open>build_rate_limit\<close> equal to -1, a run of \<^verbatim>\<open>ComputeCreate.execute\<close>
  and a run of \<^verbatim>\<open>ComputeActiveWait.execute\<close> each leave the state of the rate limiter as
  it was and add no call of the rate limiter to the history: no ticket is registered
  and none is released, whatever the rate limiter, the driver and the inputs.
\<close>

theorem rate_limit_disabled_untouched:
  assumes "build_rate_limit cfg = - 1"
  shows
    "rate_limit (snd (ComputeCreate_execute cfg tmpl drv rl amphora_id config_drive_files
        build_type_priority server_group_id ports flavor availability_zone w)) = rate_limit w \<and>
     filter is_rate_limit_call (calls (snd (ComputeCreate_execute cfg tmpl drv rl amphora_id
        config_drive_files build_type_priority server_group_id ports flavor availability_zone w)))
       = filter is_rate_limit_call (calls w) \<and>
     rate_limit (snd (ComputeActiveWait_execute cfg drv rl compute_id amphora_id
        availability_zone w)) = rate_limit w \<and>
     filter is_rate_limit_call (calls (snd (ComputeActiveWait_execute cfg drv rl compute_id
        amphora_id availability_zone w)))
       = filter is_rate_limit_call (calls w)"
proof -
  obtain res w' where run: "ComputeCreate_execute cfg tmpl drv rl amphora_id config_drive_files
        build_type_priority server_group_id ports flavor availability_zone w = (res, w')"
    by (cases "ComputeCreate_execute cfg tmpl drv rl amphora_id config_drive_files
        build_type_priority server_group_id ports flavor availability_zone w")
  from run obtain target w1 ports' topo fl zone wt nets where
    w1: "w1 = log LDebug ''Compute create execute for amphora with id %s'' [amphora_id]
            (case config_drive_files of
               Some c \<Rightarrow> if dicts w c \<noteq> [] then w else snd (alloc_dict [] w)
             | None \<Rightarrow> snd (alloc_dict [] w))"
    and tb: "ComputeCreate_try cfg tmpl drv rl amphora_id target build_type_priority
                server_group_id ports' topo fl nets zone w1 = (res, wt)"
    and w': "w' = (if isl res
                   then log LException ''Compute create for amphora id: %s failed'' [amphora_id] wt
                   else wt)"
    by (rule ComputeCreate_execute_cases) blast
  have "rate_limit w' = rate_limit w \<and>
        filter is_rate_limit_call (calls w') = filter is_rate_limit_call (calls w)"
    using ComputeCreate_try_rate_limit_disabled [OF tb assms]
      finished_world(1,2) [OF w'] prepared_world(1,2) [OF w1] by simp
  with run active_wait_disabled [OF assms] show ?thesis
    by (simp add: ComputeActiveWait_execute_def)
qed

theorem rate_limit_disabled_untouched_witness:
  "build_rate_limit (plain_conf\<lparr>build_rate_limit := - 1\<rparr>) = - 1 \<and>
   rate_limit (snd (ComputeCreate_execute (plain_conf\<lparr>build_rate_limit := - 1\<rparr>)
      plain_templaters scripted (admission_gate (- 1)) ''amp-1'' None 40 None None None None
      (start (no_answers\<lparr>builds := [Inr ''vm-1'']\<rparr>) [(''amp-0'', 40)])))
     = [(''amp-0'', 40)] \<and>
   rate_limit (snd (ComputeActiveWait_execute (plain_conf\<lparr>build_rate_limit := - 1\<rparr>)
      scripted (admission_gate (- 1)) ''vm-1'' ''amp-1'' None
      (start (no_answers\<lparr>polls := [Inr (amp_in ACTIVE, None)]\<rparr>) [(''amp-1'', 40)])))
     = [(''amp-1'', 40)] \<and>
   filter is_rate_limit_call (calls (snd (ComputeActiveWait_execute
      (plain_conf\<lparr>build_rate_limit := - 1\<rparr>)
      scripted (admission_gate (- 1)) ''vm-1'' ''amp-1'' None
      (start (no_answers\<lparr>polls := [Inr (amp_in ACTIVE, None)]\<rparr>) [(''amp-1'', 40)])))) = []"
proof -
  have h: "build_rate_limit (plain_conf\<lparr>build_rate_limit := - 1\<rparr>) = - 1" by simp
  from rate_limit_disabled_untouched
         [OF h, of plain_templaters scripted "admission_gate (- 1)" "''amp-1''" None 40 None None
            None None "start (no_answers\<lparr>builds := [Inr ''vm-1'']\<rparr>) [(''amp-0'', 40)]"]
       rate_limit_disabled_untouched
         [OF h, of plain_templaters scripted "admission_gate (- 1)" "''amp-1''" None 40 None None
            None None "start (no_answers\<lparr>polls := [Inr (amp_in ACTIVE, None)]\<rparr>) [(''amp-1'', 40)]"
            "''vm-1''"]
  show ?thesis by (simp add: start_def)
qed

subsection \<open>What execute writes to the request\<close>




subsection \<open>The ticket of a provisioning run\<close>

text \<open>
  The gate of the spec: a release leaves no ticket of the amphora, tickets of distinct
  amphorae stay distinct, an admitted ticket is there.
\<close>

lemma ticket_count_delete: "ticket_count a (AList.delete a ts) = 0"
  by (induction ts) (auto simp: ticket_count_def)

lemma ticket_count_distinct: "distinct (map fst ts) \<Longrightarrow> ticket_count a ts \<le> 1"
proof (induction ts)
  case Nil
  then show ?case by (simp add: ticket_count_def)
next
  case (Cons t ts)
  have "filter (\<lambda>t. fst t = a) ts = []" if "fst t = a"
  proof -
    from Cons.prems that have "a \<notin> fst ` set ts" by simp
    then have "\<forall>x\<in>set ts. fst x \<noteq> a" by (metis imageI)
    then show ?thesis by (simp add: filter_empty_conv)
  qed
  with Cons show ?case by (auto simp: ticket_count_def)
qed

lemma ticket_count_update: "0 < ticket_count a (AList.update a p ts)"
  by (induction ts) (auto simp: ticket_count_def)

lemma ticket_count_absent: "ticket_count a ts = 0 \<Longrightarrow> AList.delete a (AList.update a p ts) = ts"
proof -
  assume "ticket_count a ts = 0"
  then have "a \<notin> fst ` set ts" by (auto simp: ticket_count_def filter_empty_conv)
  then show ?thesis by (simp add: delete_update_same)
qed

lemma active_wait_gate:
  assumes "build_rate_limit cfg \<noteq> - 1"
    and "active_wait cfg drv (admission_gate l) c a n m w = (r, w')"
  shows "(isl r \<longrightarrow> rate_limit w' = rate_limit w \<and>
            filter is_rate_limit_call (calls w') = filter is_rate_limit_call (calls w)) \<and>
         (\<not> isl r \<longrightarrow> rate_limit w' = AList.delete a (rate_limit w) \<and>
            filter is_rate_limit_call (calls w')
              = filter is_rate_limit_call (calls w) @ [RemoveFromBuildReqQueue a])"
  using assms(2)
proof (induction m arbitrary: w)
  case 0
  then show ?case by (auto simp: raise_def)
next
  case (Suc m)
  obtain x d' where g: "get_amphora drv c n (compute w) = (x, d')"
    by (cases "get_amphora drv c n (compute w)")
  let ?w1 = "w\<lparr>compute := d', calls := calls w @ [GetAmphora c n]\<rparr>"
  show ?case
  proof (cases x)
    case (Inl e)
    with g Suc.prems show ?thesis by (auto simp: on_compute_def is_rate_limit_call_def)
  next
    case (Inr af)
    obtain amp fault where af: "af = (amp, fault)" by (cases af)
    show ?thesis
    proof (cases "status amp = ACTIVE \<or> status amp = ERROR")
      case True
      with g Inr af Suc.prems assms(1) show ?thesis
        by (auto simp: on_compute_def on_rate_limit_def is_rate_limit_call_def and_then_def
              return_def raise_def admission_gate_def release_def ACTIVE_def ERROR_def)
    next
      case False
      with g Inr af Suc.prems
      have "active_wait cfg drv (admission_gate l) c a n m (sleep (amp_active_wait_sec cfg) ?w1)
            = (r, w')" by (simp add: on_compute_def)
      from Suc.IH [OF this] show ?thesis by (simp add: sleep_def is_rate_limit_call_def)
    qed
  qed
qed

lemma ComputeCreate_revert_gate:
  "rate_limit (snd (ComputeCreate_revert drv result a w)) = rate_limit w \<and>
   filter is_rate_limit_call (calls (snd (ComputeCreate_revert drv result a w)))
     = filter is_rate_limit_call (calls w)"
  by (simp add: ComputeCreate_revert_def action_defs is_rate_limit_call_def
      split: prod.splits sum.splits pyobj.splits)

lemma ComputeCreate_execute_admission:
  assumes run: "ComputeCreate_execute cfg tmpl drv rl a cdf p sg ports flavor az w = (r, w')"
    and enabled: "build_rate_limit cfg \<noteq> - 1"
  shows "rate_limit w' = snd (add_to_build_request_queue rl a p (rate_limit w)) \<and>
         filter is_rate_limit_call (calls w')
           = filter is_rate_limit_call (calls w) @ [AddToBuildRequestQueue a p] \<and>
         (isl (fst (add_to_build_request_queue rl a p (rate_limit w))) \<longrightarrow> isl r)"
proof -
  from run obtain target w1 ports' topo fl zone wt nets where
    w1: "w1 = log LDebug ''Compute create execute for amphora with id %s'' [a]
            (case cdf of
               Some c \<Rightarrow> if dicts w c \<noteq> [] then w else snd (alloc_dict [] w)
             | None \<Rightarrow> snd (alloc_dict [] w))"
    and tb: "ComputeCreate_try cfg tmpl drv rl a target p sg ports' topo fl nets zone w1
             = (r, wt)"
    and w': "w' = (if isl r
                   then log LException ''Compute create for amphora id: %s failed'' [a] wt
                   else wt)"
    by (rule ComputeCreate_execute_cases) blast
  from ComputeCreate_try_admission [OF tb enabled] finished_world(1,2) [OF w']
    prepared_world(1,2) [OF w1]
  show ?thesis by simp
qed

text \<open>
  Claim C2, as stated, fails. A run that registers a ticket and then aborts (here the
  first poll reports ERROR and the saga reverts the create) never calls the gate's
  release: the only call of the rate limiter is the registration, and the ticket is
  still in the gate when the saga has ended.
\<close>

theorem provision_abort_leaves_ticket:
  "fst (provision plain_conf plain_templaters scripted (admission_gate 5) ''amp-1'' None 40 None
          None None None
          (start (no_answers\<lparr>builds := [Inr ''vm-1''],
                              polls := [Inr (amp_in ERROR, Some ''no valid host'')],
                              deletes := [Inr ()]\<rparr>) []))
     = Inl (ComputeBuildException (Some ''no valid host'')) \<and>
   calls (snd (provision plain_conf plain_templaters scripted (admission_gate 5) ''amp-1'' None 40
          None None None None
          (start (no_answers\<lparr>builds := [Inr ''vm-1''],
                              polls := [Inr (amp_in ERROR, Some ''no valid host'')],
                              deletes := [Inr ()]\<rparr>) [])))
     ! 0 = AddToBuildRequestQueue ''amp-1'' 40 \<and>
   filter is_rate_limit_call
     (calls (snd (provision plain_conf plain_templaters scripted (admission_gate 5) ''amp-1'' None
          40 None None None None
          (start (no_answers\<lparr>builds := [Inr ''vm-1''],
                              polls := [Inr (amp_in ERROR, Some ''no valid host'')],
                              deletes := [Inr ()]\<rparr>) []))))
     = [AddToBuildRequestQueue ''amp-1'' 40] \<and>
   rate_limit (snd (provision plain_conf plain_templaters scripted (admission_gate 5) ''amp-1''
          None 40 None None None None
          (start (no_answers\<lparr>builds := [Inr ''vm-1''],
                              polls := [Inr (amp_in ERROR, Some ''no valid host'')],
                              deletes := [Inr ()]\<rparr>) [])))
     = [(''amp-1'', 40)] \<and>
   ticket_count ''amp-1''
     (rate_limit (snd (provision plain_conf plain_templaters scripted (admission_gate 5) ''amp-1''
          None 40 None None None None
          (start (no_answers\<lparr>builds := [Inr ''vm-1''],
                              polls := [Inr (amp_in ERROR, Some ''no valid host'')],
                              deletes := [Inr ()]\<rparr>) [])))) = 1"
  by (simp add: run_defs amp_in_def ACTIVE_def ERROR_def is_rate_limit_call_def ticket_count_def
        eval_nat_numeral)

text \<open>
  Claim C2, amended. For a provisioning run with the build limit enabled: when the run
  succeeds, the calls it makes to the gate are one registration and then one release of
  the amphora's ticket, no ticket of the amphora is left, and if there was none before
  admission the gate is as it was before. When the run aborts, the only call to the gate
  is the registration: the ticket is not released, and if the gate had room it is still
  registered. If the gate held at most one ticket per amphora id before the run, it does
  after it.
\<close>

theorem provision_ticket:
  assumes run: "provision cfg tmpl drv (admission_gate (build_rate_limit cfg)) amphora_id
                  config_drive_files build_type_priority server_group_id ports flavor
                  availability_zone w = (res, w')"
    and enabled: "build_rate_limit cfg \<noteq> - 1"
  shows
   "(\<not> isl res \<longrightarrow>
       filter is_rate_limit_call (calls w')
         = filter is_rate_limit_call (calls w) @
           [AddToBuildRequestQueue amphora_id build_type_priority,
            RemoveFromBuildReqQueue amphora_id] \<and>
       ticket_count amphora_id (rate_limit w') = 0 \<and>
       (ticket_count amphora_id (rate_limit w) = 0 \<longrightarrow> rate_limit w' = rate_limit w)) \<and>
    (isl res \<longrightarrow>
       filter is_rate_limit_call (calls w')
         = filter is_rate_limit_call (calls w) @
           [AddToBuildRequestQueue amphora_id build_type_priority] \<and>
       rate_limit w'
         = snd (admit (build_rate_limit cfg) amphora_id build_type_priority (rate_limit w))) \<and>
    (isl res \<and> int (length (rate_limit w)) < build_rate_limit cfg \<longrightarrow>
       0 < ticket_count amphora_id (rate_limit w')) \<and>
    (distinct (map fst (rate_limit w)) \<longrightarrow> (\<forall>a. ticket_count a (rate_limit w') \<le> 1))"
proof -
  let ?rl = "admission_gate (build_rate_limit cfg)"
  let ?adm = "admit (build_rate_limit cfg) amphora_id build_type_priority (rate_limit w)"
  obtain r1 w1 where ex: "ComputeCreate_execute cfg tmpl drv ?rl amphora_id config_drive_files
      build_type_priority server_group_id ports flavor availability_zone w = (r1, w1)"
    by (cases "ComputeCreate_execute cfg tmpl drv ?rl amphora_id config_drive_files
      build_type_priority server_group_id ports flavor availability_zone w")
  from ComputeCreate_execute_admission [OF ex enabled]
  have g1: "rate_limit w1 = snd ?adm"
    and c1: "filter is_rate_limit_call (calls w1)
             = filter is_rate_limit_call (calls w) @
               [AddToBuildRequestQueue amphora_id build_type_priority]"
    and f1: "isl (fst ?adm) \<Longrightarrow> isl r1"
    by (simp_all add: admission_gate_def)
  have adm: "snd ?adm = rate_limit w \<or>
             \<not> isl (fst ?adm) \<and>
             snd ?adm = AList.update amphora_id build_type_priority (rate_limit w)"
    by (simp add: admit_def)
  have adm_ok: "\<not> isl (fst ?adm) \<Longrightarrow>
             snd ?adm = AList.update amphora_id build_type_priority (rate_limit w)"
    by (auto simp: admit_def split: if_splits)
  have adm_lt: "int (length (rate_limit w)) < build_rate_limit cfg \<Longrightarrow>
             snd ?adm = AList.update amphora_id build_type_priority (rate_limit w)"
    by (simp add: admit_def)
  have core: "(\<not> isl res \<longrightarrow>
                 \<not> isl (fst ?adm) \<and> rate_limit w' = AList.delete amphora_id (snd ?adm) \<and>
                 filter is_rate_limit_call (calls w')
                   = filter is_rate_limit_call (calls w) @
                     [AddToBuildRequestQueue amphora_id build_type_priority,
                      RemoveFromBuildReqQueue amphora_id]) \<and>
              (isl res \<longrightarrow>
                 rate_limit w' = snd ?adm \<and>
                 filter is_rate_limit_call (calls w')
                   = filter is_rate_limit_call (calls w) @
                     [AddToBuildRequestQueue amphora_id build_type_priority])"
  proof (cases r1)
    case (Inl e)
    with run ex have "res = Inl e"
      and "w' = snd (ComputeCreate_revert drv (Failure e) amphora_id w1)"
      by (auto simp: provision_def split: prod.splits)
    with ComputeCreate_revert_gate [of drv "Failure e" amphora_id w1] g1 c1
    show ?thesis by simp
  next
    case (Inr compute_id)
    with f1 have ok: "\<not> isl (fst ?adm)" by auto
    obtain r2 w2 where aw: "ComputeActiveWait_execute cfg drv ?rl compute_id amphora_id
        availability_zone w1 = (r2, w2)"
      by (cases "ComputeActiveWait_execute cfg drv ?rl compute_id amphora_id
        availability_zone w1")
    from aw have "\<exists>net. active_wait cfg drv ?rl compute_id amphora_id net
        (nat (amp_active_retries cfg)) w1 = (r2, w2)"
      by (auto simp: ComputeActiveWait_execute_def Let_def)
    then obtain net where "active_wait cfg drv ?rl compute_id amphora_id net
        (nat (amp_active_retries cfg)) w1 = (r2, w2)" ..
    note g2 = active_wait_gate [OF enabled this]
    show ?thesis
    proof (cases r2)
      case (Inl e)
      with run ex aw Inr have "res = Inl e"
        and "w' = snd (ComputeCreate_revert drv (Str compute_id) amphora_id w2)"
        by (auto simp: provision_def split: prod.splits)
      with ComputeCreate_revert_gate [of drv "Str compute_id" amphora_id w2] g1 c1 g2 Inl
      show ?thesis by simp
    next
      case (Inr amp)
      with run ex aw \<open>r1 = Inr compute_id\<close> have "res = Inr amp" and "w' = w2"
        by (auto simp: provision_def)
      with g1 c1 g2 Inr ok show ?thesis by simp
    qed
  qed
  have A: "ticket_count amphora_id (rate_limit w') = 0 \<and>
           (ticket_count amphora_id (rate_limit w) = 0 \<longrightarrow> rate_limit w' = rate_limit w)"
    if "\<not> isl res"
  proof -
    from core that adm_ok have "rate_limit w' = AList.delete amphora_id
        (AList.update amphora_id build_type_priority (rate_limit w))" by auto
    then show ?thesis by (simp add: ticket_count_delete ticket_count_absent)
  qed
  have B: "0 < ticket_count amphora_id (rate_limit w')"
    if "isl res" "int (length (rate_limit w)) < build_rate_limit cfg"
    using core that adm_lt by (simp add: ticket_count_update)
  have C: "ticket_count a (rate_limit w') \<le> 1" if d: "distinct (map fst (rate_limit w))" for a
  proof -
    have "distinct (map fst (snd ?adm))" using adm d by (auto simp: distinct_update)
    then have "distinct (map fst (rate_limit w'))"
      using core by (cases "isl res") (auto simp: distinct_delete)
    then show ?thesis by (rule ticket_count_distinct)
  qed
  from core A B C show ?thesis by blast
qed

theorem provision_ticket_witness:
  "filter is_rate_limit_call
     (calls (snd (provision plain_conf plain_templaters scripted
          (admission_gate (build_rate_limit plain_conf)) ''amp-1'' None 40 None None None None
          (start (no_answers\<lparr>builds := [Inr ''vm-1''],
                              polls := [Inr (amp_in ''BUILD'', None),
                                        Inr (amp_in ACTIVE, None)]\<rparr>) []))))
     = [AddToBuildRequestQueue ''amp-1'' 40, RemoveFromBuildReqQueue ''amp-1''] \<and>
   rate_limit (snd (provision plain_conf plain_templaters scripted
          (admission_gate (build_rate_limit plain_conf)) ''amp-1'' None 40 None None None None
          (start (no_answers\<lparr>builds := [Inr ''vm-1''],
                              polls := [Inr (amp_in ''BUILD'', None),
                                        Inr (amp_in ACTIVE, None)]\<rparr>) []))) = [] \<and>
   filter is_rate_limit_call
     (calls (snd (provision plain_conf plain_templaters scripted
          (admission_gate (build_rate_limit plain_conf)) ''amp-1'' None 40 None None None None
          (start (no_answers\<lparr>builds := [Inr ''vm-1''],
                              polls := [Inr (amp_in ERROR, Some ''no valid host'')],
                              deletes := [Inr ()]\<rparr>) []))))
     = [AddToBuildRequestQueue ''amp-1'' 40] \<and>
   0 < ticket_count ''amp-1''
     (rate_limit (snd (provision plain_conf plain_templaters scripted
          (admission_gate (build_rate_limit plain_conf)) ''amp-1'' None 40 None None None None
          (start (no_answers\<lparr>builds := [Inr ''vm-1''],
                              polls := [Inr (amp_in ERROR, Some ''no valid host'')],
                              deletes := [Inr ()]\<rparr>) [])))) \<and>
   ticket_count ''amp-1''
     (rate_limit (snd (provision plain_conf plain_templaters scripted
          (admission_gate (build_rate_limit plain_conf)) ''amp-1'' None 40 None None None None
          (start (no_answers\<lparr>builds := [Inr ''vm-1''],
                              polls := [Inr (amp_in ERROR, Some ''no valid host'')],
                              deletes := [Inr ()]\<rparr>) [])))) \<le> 1"
proof -
  let ?ok = "start (no_answers\<lparr>builds := [Inr ''vm-1''],
                              polls := [Inr (amp_in ''BUILD'', None),
                                        Inr (amp_in ACTIVE, None)]\<rparr>) ([] :: tickets)"
  let ?bad = "start (no_answers\<lparr>builds := [Inr ''vm-1''],
                              polls := [Inr (amp_in ERROR, Some ''no valid host'')],
                              deletes := [Inr ()]\<rparr>) ([] :: tickets)"
  have en: "build_rate_limit plain_conf \<noteq> - 1" by (simp add: plain_conf_def)
  have s: "\<not> isl (fst (provision plain_conf plain_templaters scripted
          (admission_gate (build_rate_limit plain_conf)) ''amp-1'' None 40 None None None None
          ?ok))"
    by (simp add: run_defs amp_in_def ACTIVE_def ERROR_def eval_nat_numeral)
  have f: "isl (fst (provision plain_conf plain_templaters scripted
          (admission_gate (build_rate_limit plain_conf)) ''amp-1'' None 40 None None None None
          ?bad))"
    by (simp add: run_defs amp_in_def ACTIVE_def ERROR_def eval_nat_numeral)
  have e: "rate_limit ?ok = []" "rate_limit ?bad = []" "calls ?ok = []" "calls ?bad = []"
    "int (length (rate_limit ?bad)) < build_rate_limit plain_conf"
    by (simp_all add: start_def plain_conf_def)
  from provision_ticket [OF surjective_pairing en, of plain_templaters scripted "''amp-1''" None 40
         None None None None ?ok] s e
  have 1: "filter is_rate_limit_call
     (calls (snd (provision plain_conf plain_templaters scripted
          (admission_gate (build_rate_limit plain_conf)) ''amp-1'' None 40 None None None None
          ?ok)))
     = [AddToBuildRequestQueue ''amp-1'' 40, RemoveFromBuildReqQueue ''amp-1''] \<and>
   rate_limit (snd (provision plain_conf plain_templaters scripted
          (admission_gate (build_rate_limit plain_conf)) ''amp-1'' None 40 None None None None
          ?ok)) = []"
    by (simp add: ticket_count_def)
  from provision_ticket [OF surjective_pairing en, of plain_templaters scripted "''amp-1''" None 40
         None None None None ?bad] f e
  have 2: "filter is_rate_limit_call
     (calls (snd (provision plain_conf plain_templaters scripted
          (admission_gate (build_rate_limit plain_conf)) ''amp-1'' None 40 None None None None
          ?bad)))
     = [AddToBuildRequestQueue ''amp-1'' 40] \<and>
   0 < ticket_count ''amp-1''
     (rate_limit (snd (provision plain_conf plain_templaters scripted
          (admission_gate (build_rate_limit plain_conf)) ''amp-1'' None 40 None None None None
          ?bad))) \<and>
   ticket_count ''amp-1''
     (rate_limit (snd (provision plain_conf plain_templaters scripted
          (admission_gate (build_rate_limit plain_conf)) ''amp-1'' None 40 None None None None
          ?bad))) \<le> 1"
    by auto
  from 1 2 show ?thesis by simp
qed

end
